theory Spec2Isabelle
  imports Complex_Main
begin

section \<open>The number model\<close>

text \<open>
  Every value of \<^verbatim>\<open>ROICalculator.tsx\<close> is a JavaScript \<^verbatim>\<open>number\<close>. The model keeps the
  four kinds of number the code can produce apart: a finite number, the two infinities and
  NaN. The operations below follow the IEEE 754 rules for the special values (division by
  zero, \<open>\<infinity> - \<infinity>\<close>, NaN propagation, comparisons with NaN, the case table of
  \<^verbatim>\<open>Math.pow\<close>). A finite number is carried as an exact real and the operations compute
  on finite operands without rounding, overflow or underflow, which binary64 has. The
  theorems about the program are therefore stated so that they do not rest on that
  exactness: they follow the shape of the computation and its guards, the special-value
  rules, whole numbers small enough to be exact in binary64, and the signs of results.
  Where a theorem gives a computed value as an exact real expression (the real sum of the
  salary advantage), the program's value is that expression evaluated in binary64. Zero
  has no sign: the sign of a zero is observable here only through a division by it, and
  \<^verbatim>\<open>totalCost\<close> cannot be \<open>-0\<close> (its last summand \<^verbatim>\<open>loanInterest\<close> is the literal \<open>0\<close>
  or a difference whose subtrahend is positive, and a sum with such a summand is not
  \<open>-0\<close>); a step or a track width of \<open>-0\<close> is not considered.
\<close>

datatype jsnum = Fin real | PInf | NInf | NaN


fun js_neg :: "jsnum \<Rightarrow> jsnum" where
  "js_neg (Fin a) = Fin (- a)"
| "js_neg PInf = NInf"
| "js_neg NInf = PInf"
| "js_neg NaN = NaN"

instantiation jsnum :: plus
begin

fun plus_jsnum :: "jsnum \<Rightarrow> jsnum \<Rightarrow> jsnum" where
  "plus_jsnum (Fin a) (Fin b) = Fin (a + b)"
| "plus_jsnum NaN _ = NaN"
| "plus_jsnum _ NaN = NaN"
| "plus_jsnum PInf NInf = NaN"
| "plus_jsnum NInf PInf = NaN"
| "plus_jsnum PInf _ = PInf"
| "plus_jsnum _ PInf = PInf"
| "plus_jsnum NInf _ = NInf"
| "plus_jsnum _ NInf = NInf"

instance ..

end

instantiation jsnum :: minus
begin

definition minus_jsnum :: "jsnum \<Rightarrow> jsnum \<Rightarrow> jsnum" where
  "minus_jsnum x y = x + js_neg y"

instance ..

end

instantiation jsnum :: times
begin

fun times_jsnum :: "jsnum \<Rightarrow> jsnum \<Rightarrow> jsnum" where
  "times_jsnum (Fin a) (Fin b) = Fin (a * b)"
| "times_jsnum NaN _ = NaN"
| "times_jsnum _ NaN = NaN"
| "times_jsnum PInf (Fin b) = (if b = 0 then NaN else if 0 < b then PInf else NInf)"
| "times_jsnum NInf (Fin b) = (if b = 0 then NaN else if 0 < b then NInf else PInf)"
| "times_jsnum (Fin a) PInf = (if a = 0 then NaN else if 0 < a then PInf else NInf)"
| "times_jsnum (Fin a) NInf = (if a = 0 then NaN else if 0 < a then NInf else PInf)"
| "times_jsnum PInf PInf = PInf"
| "times_jsnum NInf NInf = PInf"
| "times_jsnum PInf NInf = NInf"
| "times_jsnum NInf PInf = NInf"

instance ..

end

instantiation jsnum :: inverse
begin

fun divide_jsnum :: "jsnum \<Rightarrow> jsnum \<Rightarrow> jsnum" where
  "divide_jsnum (Fin a) (Fin b) =
     (if b = 0 then (if a = 0 then NaN else if 0 < a then PInf else NInf)
      else Fin (a / b))"
| "divide_jsnum NaN _ = NaN"
| "divide_jsnum _ NaN = NaN"
| "divide_jsnum (Fin a) _ = Fin 0"
| "divide_jsnum PInf (Fin b) = (if 0 \<le> b then PInf else NInf)"
| "divide_jsnum NInf (Fin b) = (if 0 \<le> b then NInf else PInf)"
| "divide_jsnum _ _ = NaN"

definition inverse_jsnum :: "jsnum \<Rightarrow> jsnum" where
  "inverse_jsnum x = divide (Fin 1) x"

instance ..

end

text \<open>The comparisons \<^verbatim>\<open><\<close> and \<^verbatim>\<open><=\<close>: false as soon as one side is NaN.\<close>

instantiation jsnum :: ord
begin

fun less_jsnum :: "jsnum \<Rightarrow> jsnum \<Rightarrow> bool" where
  "less_jsnum (Fin a) (Fin b) = (a < b)"
| "less_jsnum NaN _ = False"
| "less_jsnum _ NaN = False"
| "less_jsnum _ NInf = False"
| "less_jsnum PInf _ = False"
| "less_jsnum NInf _ = True"
| "less_jsnum _ PInf = True"

fun less_eq_jsnum :: "jsnum \<Rightarrow> jsnum \<Rightarrow> bool" where
  "less_eq_jsnum (Fin a) (Fin b) = (a \<le> b)"
| "less_eq_jsnum NaN _ = False"
| "less_eq_jsnum _ NaN = False"
| "less_eq_jsnum NInf _ = True"
| "less_eq_jsnum _ PInf = True"
| "less_eq_jsnum _ _ = False"

instance ..

end

text \<open>\<^verbatim>\<open>Math.max\<close> and \<^verbatim>\<open>Math.min\<close> of two arguments: NaN if either is NaN.\<close>

fun js_max :: "jsnum \<Rightarrow> jsnum \<Rightarrow> jsnum" where
  "js_max NaN _ = NaN"
| "js_max _ NaN = NaN"
| "js_max x y = (if x < y then y else x)"

fun js_min :: "jsnum \<Rightarrow> jsnum \<Rightarrow> jsnum" where
  "js_min NaN _ = NaN"
| "js_min _ NaN = NaN"
| "js_min x y = (if y < x then y else x)"

text \<open>\<^verbatim>\<open>Math.round\<close>: the nearest integer, a tie going up.\<close>

fun js_round :: "jsnum \<Rightarrow> jsnum" where
  "js_round (Fin a) = Fin (of_int \<lfloor>a + 1 / 2\<rfloor>)"
| "js_round x = x"

text \<open>
  \<^verbatim>\<open>Math.pow\<close>, by the case table of ECMAScript's \<^verbatim>\<open>Number::exponentiate\<close>. A finite
  exponent is integral when it equals its floor.
\<close>

definition is_integral :: "real \<Rightarrow> bool" where
  "is_integral e = (of_int \<lfloor>e\<rfloor> = e)"

definition is_odd_integral :: "real \<Rightarrow> bool" where
  "is_odd_integral e = (is_integral e \<and> odd \<lfloor>e\<rfloor>)"

fun js_pow :: "jsnum \<Rightarrow> jsnum \<Rightarrow> jsnum" where
  "js_pow _ NaN = NaN"
| "js_pow b (Fin e) =
     (if e = 0 then Fin 1
      else case b of
        NaN \<Rightarrow> NaN
      | PInf \<Rightarrow> (if 0 < e then PInf else Fin 0)
      | NInf \<Rightarrow> (if 0 < e then (if is_odd_integral e then NInf else PInf) else Fin 0)
      | Fin x \<Rightarrow>
          (if x = 0 then (if 0 < e then Fin 0 else PInf)
           else if 0 < x then Fin (x powr e)
           else if is_integral e
             then Fin ((if is_odd_integral e then - 1 else 1) * (\<bar>x\<bar> powr e))
           else NaN))"
| "js_pow NaN _ = NaN"
| "js_pow PInf PInf = PInf"
| "js_pow PInf NInf = Fin 0"
| "js_pow NInf PInf = PInf"
| "js_pow NInf NInf = Fin 0"
| "js_pow (Fin x) PInf = (if 1 < \<bar>x\<bar> then PInf else if \<bar>x\<bar> = 1 then NaN else Fin 0)"
| "js_pow (Fin x) NInf = (if 1 < \<bar>x\<bar> then Fin 0 else if \<bar>x\<bar> = 1 then NaN else PInf)"

section \<open>The return model: \<^verbatim>\<open>calculateROI\<close>\<close>

text \<open>
  The input record has the twelve fields of \<^verbatim>\<open>DEFAULTS\<close>. The fields are finite numbers
  (the sliders and \<^verbatim>\<open>DEFAULTS\<close> only ever store such), so they are reals, lifted by
  \<open>Fin\<close> where the computation reads them.
\<close>

record Inputs =
  preMbaSalary :: real
  postMbaSalary :: real
  signingBonus :: real
  tuitionAndExpenses :: real
  loanAmount :: real
  interestRate :: real
  loanTerm :: real
  programLength :: real
  investmentReturn :: real
  preMbaWageGrowth :: real
  postMbaWageGrowth :: real
  inflation :: real

definition DEFAULTS :: Inputs where
  "DEFAULTS = \<lparr> preMbaSalary = 80000, postMbaSalary = 140000, signingBonus = 30000,
     tuitionAndExpenses = 131303, loanAmount = 59891, interestRate = 59 / 10,
     loanTerm = 10, programLength = 22, investmentReturn = 55 / 10,
     preMbaWageGrowth = 41 / 10, postMbaWageGrowth = 42 / 10, inflation = 26 / 10 \<rparr>"

record ROIResult =
  annualizedROI :: jsnum
  netROI :: jsnum
  totalCost :: jsnum
  tuitionExpenses :: jsnum
  loanInterest :: jsnum
  forgoneIncome :: jsnum
  totalReturn :: jsnum
  salaryEdge :: jsnum
  bonusCompounded :: jsnum

text \<open>The four real rates of lines 97 to 100.\<close>

definition realPreGrowth :: "Inputs \<Rightarrow> jsnum" where
  "realPreGrowth i = (Fin (preMbaWageGrowth i) - Fin (inflation i)) / Fin 100"

definition realPostGrowth :: "Inputs \<Rightarrow> jsnum" where
  "realPostGrowth i = (Fin (postMbaWageGrowth i) - Fin (inflation i)) / Fin 100"

definition realRate :: "Inputs \<Rightarrow> jsnum" where
  "realRate i = js_max ((Fin (interestRate i) - Fin (inflation i)) / Fin 100) (Fin 0)"

definition realInvestReturn :: "Inputs \<Rightarrow> jsnum" where
  "realInvestReturn i = (Fin (55 / 10) - Fin (inflation i)) / Fin 100"

text \<open>Lines 103 and 104.\<close>

definition forgoneIncome_of :: "Inputs \<Rightarrow> jsnum" where
  "forgoneIncome_of i =
     (let monthlyPreMba = Fin (preMbaSalary i) / Fin 12
      in monthlyPreMba * Fin (programLength i))"

text \<open>Lines 107 to 113: the amortisation, behind its three guards.\<close>

definition loanInterest_of :: "Inputs \<Rightarrow> jsnum" where
  "loanInterest_of i =
     (if Fin 0 < Fin (loanAmount i) \<and> Fin 0 < realRate i \<and> Fin 0 < Fin (loanTerm i) then
        let monthlyRate = realRate i / Fin 12;
            numPayments = Fin (loanTerm i) * Fin 12;
            monthlyPayment =
              Fin (loanAmount i) * (monthlyRate * js_pow (Fin 1 + monthlyRate) numPayments)
                / (js_pow (Fin 1 + monthlyRate) numPayments - Fin 1)
        in (monthlyPayment * numPayments) - Fin (loanAmount i)
      else Fin 0)"

text \<open>
  Lines 118 to 123: the loop over \<^verbatim>\<open>year\<close> from 1 to 10, with the running sum as an
  accumulator.
\<close>

function salaryEdge_loop :: "Inputs \<Rightarrow> nat \<Rightarrow> jsnum \<Rightarrow> jsnum" where
  "salaryEdge_loop i year acc =
     (if year \<le> 10 then
        let postSalary =
              Fin (postMbaSalary i) * js_pow (Fin 1 + realPostGrowth i) (Fin (real year) - Fin 1);
            preSalary =
              Fin (preMbaSalary i) *
                js_pow (Fin 1 + realPreGrowth i)
                  (Fin (real year) - Fin 1 + Fin (programLength i) / Fin 12)
        in salaryEdge_loop i (year + 1) (acc + (postSalary - preSalary))
      else acc)"
  by pat_completeness auto
termination
  by (relation "measure (\<lambda>(i, year, acc). 11 - year)") auto

declare salaryEdge_loop.simps [simp del]

definition calculateROI :: "Inputs \<Rightarrow> ROIResult" where
  "calculateROI i =
     (let forgone = forgoneIncome_of i;
          interest = loanInterest_of i;
          cost = Fin (tuitionAndExpenses i) + forgone + interest;
          edge = salaryEdge_loop i 1 (Fin 0);
          bonus = Fin (signingBonus i) * js_pow (Fin 1 + realInvestReturn i) (Fin 10);
          return = edge + bonus;
          net = return - cost;
          grossRatio = return / cost;
          annualized =
            (if Fin 0 < grossRatio
             then (js_pow grossRatio (Fin 1 / Fin 10) - Fin 1) * Fin 100
             else Fin 0)
      in \<lparr> annualizedROI = annualized, netROI = net, totalCost = cost,
           tuitionExpenses = Fin (tuitionAndExpenses i), loanInterest = interest,
           forgoneIncome = forgone, totalReturn = return, salaryEdge = edge,
           bonusCompounded = bonus \<rparr>)"

text \<open>
  The fields the specification constrains to be non-negative: all but the growth rates and
  the inflation rate.
\<close>

definition nonneg_inputs :: "Inputs \<Rightarrow> bool" where
  "nonneg_inputs i \<longleftrightarrow>
     0 \<le> preMbaSalary i \<and> 0 \<le> postMbaSalary i \<and> 0 \<le> signingBonus i \<and>
     0 \<le> tuitionAndExpenses i \<and> 0 \<le> loanAmount i \<and> 0 \<le> interestRate i \<and>
     0 \<le> loanTerm i \<and> 0 \<le> programLength i"


subsection \<open>The specification's formulas\<close>

text \<open>
  Step 3 of the specification's algorithm, in the program's arithmetic: the floor of the
  real rate at 0, the monthly rate \<open>r\<close>, the number of payments \<open>n\<close>, the monthly payment
  \<open>P = L \<times> (r \<times> (1+r)^n) / ((1+r)^n - 1)\<close>, the interest \<open>P \<times> n - L\<close> under the three
  preconditions and 0 when one of them fails.
\<close>

definition flooredRealRate_spec :: "Inputs \<Rightarrow> jsnum" where
  "flooredRealRate_spec i =
     js_max ((Fin (interestRate i) - Fin (inflation i)) / Fin 100) (Fin 0)"

definition monthlyRate_spec :: "Inputs \<Rightarrow> jsnum" where
  "monthlyRate_spec i = flooredRealRate_spec i / Fin 12"

definition numPayments_spec :: "Inputs \<Rightarrow> jsnum" where
  "numPayments_spec i = Fin (loanTerm i) * Fin 12"

definition monthlyPayment_spec :: "jsnum \<Rightarrow> jsnum \<Rightarrow> jsnum \<Rightarrow> jsnum" where
  "monthlyPayment_spec L r n = L * (r * js_pow (Fin 1 + r) n) / (js_pow (Fin 1 + r) n - Fin 1)"

definition loanInterest_spec :: "Inputs \<Rightarrow> jsnum" where
  "loanInterest_spec i =
     (if 0 < loanAmount i \<and> Fin 0 < flooredRealRate_spec i \<and> 0 < loanTerm i
      then monthlyPayment_spec (Fin (loanAmount i)) (monthlyRate_spec i) (numPayments_spec i)
             * numPayments_spec i - Fin (loanAmount i)
      else Fin 0)"

text \<open>
  The same formula over the reals, where \<open>(1+r)^n\<close> is the real power: what the
  amortisation is before any rounding.
\<close>

definition flooredRealRate_exact :: "Inputs \<Rightarrow> real" where
  "flooredRealRate_exact i = max ((interestRate i - inflation i) / 100) 0"

definition monthlyPayment_exact :: "real \<Rightarrow> real \<Rightarrow> real \<Rightarrow> real" where
  "monthlyPayment_exact L r n = L * (r * (1 + r) powr n) / ((1 + r) powr n - 1)"

definition loanInterest_exact :: "Inputs \<Rightarrow> real" where
  "loanInterest_exact i =
     (let r = flooredRealRate_exact i / 12; n = loanTerm i * 12
      in if 0 < loanAmount i \<and> 0 < flooredRealRate_exact i \<and> 0 < loanTerm i
         then monthlyPayment_exact (loanAmount i) r n * n - loanAmount i
         else 0)"

text \<open>
  Step 5 of the specification's algorithm: the terms \<open>postSalary(y) - preSalary(y)\<close> for
  \<open>y\<close> from 1 to 10, accumulated in that order from 0, in the program's arithmetic.
\<close>

definition postSalary_spec :: "Inputs \<Rightarrow> nat \<Rightarrow> jsnum" where
  "postSalary_spec i y =
     Fin (postMbaSalary i) * js_pow (Fin 1 + realPostGrowth i) (Fin (real y) - Fin 1)"

definition preSalary_spec :: "Inputs \<Rightarrow> nat \<Rightarrow> jsnum" where
  "preSalary_spec i y =
     Fin (preMbaSalary i) *
       js_pow (Fin 1 + realPreGrowth i)
         (Fin (real y) - Fin 1 + Fin (programLength i) / Fin 12)"

definition salaryAdvantage_spec :: "Inputs \<Rightarrow> jsnum" where
  "salaryAdvantage_spec i =
     foldl (\<lambda>acc y. acc + (postSalary_spec i y - preSalary_spec i y)) (Fin 0) [1 ..< 11]"

section \<open>The range input control: \<^verbatim>\<open>Slider\<close>\<close>

text \<open>
  The properties of the component that the handlers read: \<^verbatim>\<open>value\<close>, \<^verbatim>\<open>min\<close>,
  \<^verbatim>\<open>max\<close> and \<^verbatim>\<open>step\<close>. \<^verbatim>\<open>trackRef.current\<close> is either null or an element, of which
  the code reads the bounding rectangle's \<^verbatim>\<open>left\<close> and \<^verbatim>\<open>width\<close>.
\<close>

record SliderProps =
  valueP :: real
  minP :: real
  maxP :: real
  stepP :: real

record DOMRect =
  rect_left :: real
  rect_width :: real

definition getValueFromEvent :: "SliderProps \<Rightarrow> DOMRect option \<Rightarrow> real \<Rightarrow> jsnum" where
  "getValueFromEvent p trackRef clientX =
     (case trackRef of
        None \<Rightarrow> Fin (valueP p)
      | Some rect \<Rightarrow>
          let ratio = js_max (Fin 0)
                (js_min (Fin 1) ((Fin clientX - Fin (rect_left rect)) / Fin (rect_width rect)));
              raw = Fin (minP p) + ratio * (Fin (maxP p) - Fin (minP p))
          in js_round (raw / Fin (stepP p)) * Fin (stepP p))"

text \<open>
  The component's own state is the flag \<^verbatim>\<open>isDragging\<close>, initially false. A handler
  returns the next state and the list of values it passes to \<^verbatim>\<open>onChange\<close>. A handler
  reads the flag as the previous handler left it: the component is rendered again between
  two pointer events. The properties and the track are the same throughout a run.
\<close>

record SliderState =
  isDragging :: bool

definition initialState :: SliderState where
  "initialState = \<lparr> isDragging = False \<rparr>"

definition handlePointerDown ::
  "SliderProps \<Rightarrow> DOMRect option \<Rightarrow> SliderState \<Rightarrow> real \<Rightarrow> SliderState \<times> jsnum list" where
  "handlePointerDown p trackRef s clientX =
     (s\<lparr>isDragging := True\<rparr>, [getValueFromEvent p trackRef clientX])"

definition handlePointerMove ::
  "SliderProps \<Rightarrow> DOMRect option \<Rightarrow> SliderState \<Rightarrow> real \<Rightarrow> SliderState \<times> jsnum list" where
  "handlePointerMove p trackRef s clientX =
     (if \<not> isDragging s then (s, [])
      else (s, [getValueFromEvent p trackRef clientX]))"

definition handlePointerUp :: "SliderState \<Rightarrow> SliderState \<times> jsnum list" where
  "handlePointerUp s = (s\<lparr>isDragging := False\<rparr>, [])"

text \<open>
  The track element binds \<^verbatim>\<open>onPointerDown\<close>, \<^verbatim>\<open>onPointerMove\<close>, and both
  \<^verbatim>\<open>onPointerUp\<close> and \<^verbatim>\<open>onPointerCancel\<close> to \<^verbatim>\<open>handlePointerUp\<close>.
\<close>

datatype PointerEvent = PointerDown real | PointerMove real | PointerUp | PointerCancel

fun dispatch ::
  "SliderProps \<Rightarrow> DOMRect option \<Rightarrow> SliderState \<Rightarrow> PointerEvent \<Rightarrow> SliderState \<times> jsnum list" where
  "dispatch p trackRef s (PointerDown x) = handlePointerDown p trackRef s x"
| "dispatch p trackRef s (PointerMove x) = handlePointerMove p trackRef s x"
| "dispatch p trackRef s PointerUp = handlePointerUp s"
| "dispatch p trackRef s PointerCancel = handlePointerUp s"

text \<open>A run of the control: the events in order, the emitted values collected.\<close>

fun run ::
  "SliderProps \<Rightarrow> DOMRect option \<Rightarrow> SliderState \<times> jsnum list \<Rightarrow> PointerEvent list
     \<Rightarrow> SliderState \<times> jsnum list" where
  "run p trackRef (s, out) [] = (s, out)"
| "run p trackRef (s, out) (e # es) =
     (case dispatch p trackRef s e of (s', emitted) \<Rightarrow> run p trackRef (s', out @ emitted) es)"

fun is_begin :: "PointerEvent \<Rightarrow> bool" where
  "is_begin (PointerDown x) = True"
| "is_begin _ = False"

fun is_end :: "PointerEvent \<Rightarrow> bool" where
  "is_end PointerUp = True"
| "is_end PointerCancel = True"
| "is_end _ = False"

section \<open>Concrete inputs\<close>

text \<open>An input record with no cost at all and a post-degree salary of 1.\<close>

definition zeroCost :: Inputs where
  "zeroCost = \<lparr> preMbaSalary = 0, postMbaSalary = 1, signingBonus = 0,
     tuitionAndExpenses = 0, loanAmount = 0, interestRate = 0,
     loanTerm = 0, programLength = 0, investmentReturn = 0,
     preMbaWageGrowth = 0, postMbaWageGrowth = 0, inflation = 0 \<rparr>"

text \<open>No cost and no return either.\<close>

definition zeroCostZeroReturn :: Inputs where
  "zeroCostZeroReturn = zeroCost \<lparr> postMbaSalary := 0 \<rparr>"

text \<open>A cost of 100 against a ten-year return of 50, against one of 100 and against none.\<close>

definition halfReturn :: Inputs where
  "halfReturn = zeroCost \<lparr> postMbaSalary := 5, tuitionAndExpenses := 100 \<rparr>"

definition evenReturn :: Inputs where
  "evenReturn = zeroCost \<lparr> postMbaSalary := 10, tuitionAndExpenses := 100 \<rparr>"

definition noReturn :: Inputs where
  "noReturn = zeroCost \<lparr> postMbaSalary := 0, tuitionAndExpenses := 100 \<rparr>"

text \<open>
  A loan of 4095 over one year at a real rate of 1200 percent a year: the monthly rate is
  1, there are 12 payments and \<open>(1 + 1)^12 - 1\<close> is 4095, so every intermediate result is a
  whole number.
\<close>

definition steepLoan :: Inputs where
  "steepLoan = zeroCost \<lparr> loanAmount := 4095, interestRate := 1200, loanTerm := 1 \<rparr>"

text \<open>The default record with both wage growth rates equal to the inflation rate.\<close>

definition flatWages :: Inputs where
  "flatWages = DEFAULTS \<lparr> preMbaWageGrowth := 26 / 10, postMbaWageGrowth := 26 / 10 \<rparr>"


text \<open>The signing-bonus slider of \<^verbatim>\<open>SLIDER_CONFIG\<close>, and a track from pixel 100 to 600.\<close>

definition signingBonusSlider :: SliderProps where
  "signingBonusSlider = \<lparr> valueP = 30000, minP = 0, maxP = 100000, stepP = 500 \<rparr>"

definition track100to600 :: DOMRect where
  "track100to600 = \<lparr> rect_left = 100, rect_width = 500 \<rparr>"

text \<open>The signing-bonus slider when its current value is 50000.\<close>

definition midSlider :: SliderProps where
  "midSlider = signingBonusSlider \<lparr> valueP := 50000 \<rparr>"

text \<open>A slider from 0 to 10 in steps of 3: the maximum is one above the multiple 9.\<close>

definition thirdsSlider :: SliderProps where
  "thirdsSlider = \<lparr> valueP = 0, minP = 0, maxP = 10, stepP = 3 \<rparr>"

text \<open>A slider whose bounds are not multiples of its step, and a track of width 0.\<close>

definition offGridSlider :: SliderProps where
  "offGridSlider = \<lparr> valueP = 1, minP = 1, maxP = 10, stepP = 4 \<rparr>"

definition flatTrack :: DOMRect where
  "flatTrack = \<lparr> rect_left = 0, rect_width = 0 \<rparr>"

section \<open>Arithmetic on finite numbers\<close>

lemma Fin_minus [simp]: "Fin a - Fin b = Fin (a - b)"
  by (simp add: minus_jsnum_def)

lemma special_minus [simp]:
  "PInf - Fin b = PInf" "NInf - Fin b = NInf" "NaN - x = NaN"
  by (simp_all add: minus_jsnum_def)

lemma NaN_absorbs [simp]: "x + NaN = NaN" "NaN + x = NaN" "x - NaN = NaN"
  by (cases x; simp add: minus_jsnum_def)+

text \<open>\<^verbatim>\<open>Math.pow\<close> with a natural number as exponent is the power of the reals.\<close>

lemma js_pow_nat: "js_pow (Fin x) (Fin (real k)) = Fin (x ^ k)"
proof (cases "k = 0")
  case True
  then show ?thesis by simp
next
  case False
  then have k: "0 < k" by simp
  have int: "is_integral (real k)"
    by (simp add: is_integral_def)
  have odd: "is_odd_integral (real k) \<longleftrightarrow> odd k"
    by (simp add: is_odd_integral_def is_integral_def)
  consider "x = 0" | "0 < x" | "x < 0" by linarith
  then show ?thesis
  proof cases
    case 1
    then show ?thesis using k by simp
  next
    case 2
    then show ?thesis using k by (simp add: powr_realpow)
  next
    case 3
    then have "\<bar>x\<bar> powr real k = \<bar>x\<bar> ^ k"
      by (simp add: powr_realpow)
    moreover have "x ^ k = (if odd k then - 1 else 1) * \<bar>x\<bar> ^ k"
      using 3 by (simp add: power_abs power_even_abs)
    ultimately show ?thesis using 3 k int odd by simp
  qed
qed

lemma realPreGrowth_Fin: "realPreGrowth i = Fin ((preMbaWageGrowth i - inflation i) / 100)"
  by (simp add: realPreGrowth_def)

lemma realPostGrowth_Fin: "realPostGrowth i = Fin ((postMbaWageGrowth i - inflation i) / 100)"
  by (simp add: realPostGrowth_def)

section \<open>The amortisation\<close>

text \<open>
  C5. In the program's arithmetic, the loan interest is \<open>P \<times> n - L\<close>, with the monthly
  rate \<open>r\<close> the floored real rate \<open>max((interestRate - inflation)/100, 0)\<close> over 12 and
  \<open>n\<close> the term times 12, when the loan amount, the floored real rate and the term are
  all greater than 0; it is exactly 0 when one of the three is not, in particular when the
  nominal interest rate is at or below inflation.
\<close>

theorem loanInterest_amortisation:
  "loanInterest (calculateROI i) = loanInterest_spec i \<and>
   (0 < loanAmount i \<and> Fin 0 < flooredRealRate_spec i \<and> 0 < loanTerm i \<longrightarrow>
      loanInterest (calculateROI i) =
        monthlyPayment_spec (Fin (loanAmount i)) (monthlyRate_spec i) (numPayments_spec i)
          * numPayments_spec i - Fin (loanAmount i)) \<and>
   (\<not> (0 < loanAmount i \<and> Fin 0 < flooredRealRate_spec i \<and> 0 < loanTerm i) \<longrightarrow>
      loanInterest (calculateROI i) = Fin 0) \<and>
   (interestRate i \<le> inflation i \<longrightarrow> loanInterest (calculateROI i) = Fin 0)"
proof -
  have eq: "loanInterest (calculateROI i) = loanInterest_spec i"
    by (simp add: calculateROI_def Let_def loanInterest_of_def loanInterest_spec_def
        realRate_def flooredRealRate_spec_def monthlyRate_spec_def numPayments_spec_def
        monthlyPayment_spec_def)
  have "\<not> Fin 0 < flooredRealRate_spec i" if "interestRate i \<le> inflation i"
    using that by (simp add: flooredRealRate_spec_def divide_le_0_iff)
  then show ?thesis
    unfolding eq by (auto simp add: loanInterest_spec_def)
qed

text \<open>
  C5 at two records: \<open>zeroCost\<close>, whose interest rate equals its inflation rate, has no
  loan interest; \<open>steepLoan\<close> passes the three guards, with \<open>r = 1\<close> and \<open>n = 12\<close>, and
  its interest is \<open>4095 \<times> 4096 / 4095 \<times> 12 - 4095 = 45057\<close>.
\<close>

theorem loanInterest_amortisation_witness:
  "interestRate zeroCost \<le> inflation zeroCost \<and>
   loanInterest (calculateROI zeroCost) = Fin 0 \<and>
   0 < loanAmount steepLoan \<and> Fin 0 < flooredRealRate_spec steepLoan \<and>
   0 < loanTerm steepLoan \<and>
   loanInterest (calculateROI steepLoan) = Fin 45057"
proof -
  have z: "interestRate zeroCost \<le> inflation zeroCost"
    by (simp add: zeroCost_def)
  with loanInterest_amortisation [of zeroCost]
  have z0: "loanInterest (calculateROI zeroCost) = Fin 0"
    by blast
  have g: "0 < loanAmount steepLoan \<and> Fin 0 < flooredRealRate_spec steepLoan \<and>
      0 < loanTerm steepLoan"
    by (simp add: zeroCost_def steepLoan_def flooredRealRate_spec_def)
  with loanInterest_amortisation [of steepLoan]
  have "loanInterest (calculateROI steepLoan) =
      monthlyPayment_spec (Fin (loanAmount steepLoan)) (monthlyRate_spec steepLoan)
          (numPayments_spec steepLoan)
        * numPayments_spec steepLoan - Fin (loanAmount steepLoan)"
    by blast
  also have "\<dots> = Fin 45057"
    by (simp add: zeroCost_def steepLoan_def flooredRealRate_spec_def monthlyRate_spec_def
        numPayments_spec_def monthlyPayment_spec_def)
  finally show ?thesis
    using z z0 g by simp
qed

subsection \<open>The formula over the reals is monotone in the interest rate\<close>

text \<open>
  Over the reals the payment factor \<open>r (1+r)^n / ((1+r)^n - 1)\<close> is
  \<open>r / (1 - (1+r)^(-n))\<close>. The discount \<open>(1+r)^(-n)\<close> lies above each of its tangents, which
  is Bernoulli's inequality for a negative exponent; two tangents at \<open>r1\<close> bound the chord
  from 0 to \<open>r2\<close>. So the interest of the exact formula is never negative and does not
  decrease when the interest rate grows. These are facts about the formula, not about the
  program: in binary64, for a rate just above inflation, \<open>1 + monthlyRate\<close> rounds to 1,
  the divisor of line 111 is 0 and the program's interest is \<open>+\<infinity>\<close>, and for rates a
  little larger the difference \<open>P \<times> n - L\<close> cancels to a wrong, possibly negative, value.
\<close>

lemma bernoulli_neg:
  fixes z n :: real
  assumes "- 1 < z" "0 \<le> n"
  shows "1 - n * z \<le> (1 + z) powr (- n)"
proof -
  have "ln (1 + z) \<le> z"
    using assms(1) by (rule ln_add_one_self_le_self2)
  then have "n * ln (1 + z) \<le> n * z"
    using assms(2) by (rule mult_left_mono)
  then have "1 - n * z \<le> 1 + (- n * ln (1 + z))"
    by simp
  also have "\<dots> \<le> exp (- n * ln (1 + z))"
    by (rule exp_ge_add_one_self)
  also have "\<dots> = (1 + z) powr (- n)"
    using assms(1) by (simp add: powr_def)
  finally show ?thesis .
qed

lemma discount_chord:
  fixes r1 r2 n :: real
  assumes r: "0 < r1" "r1 \<le> r2" and n: "0 < n"
  shows "r1 * (1 - (1 + r2) powr (- n)) \<le> r2 * (1 - (1 + r1) powr (- n))"
proof -
  define A1 where "A1 = (1 + r1) powr (- n)"
  define A2 where "A2 = (1 + r2) powr (- n)"
  define c where "c = n / (1 + r1)"
  have A1: "0 < A1"
    using r by (simp add: A1_def)
  have "1 - n * (- r1 / (1 + r1)) \<le> (1 + (- r1 / (1 + r1))) powr (- n)"
    using r n by (intro bernoulli_neg) (simp_all add: field_simps)
  moreover have "1 + (- r1 / (1 + r1)) = 1 / (1 + r1)"
    using r by (simp add: field_simps)
  moreover have "(1 / (1 + r1)) powr (- n) = 1 / A1"
    using r by (simp add: A1_def powr_divide powr_minus field_simps)
  ultimately have "1 + c * r1 \<le> 1 / A1"
    by (simp add: c_def)
  then have a: "A1 * (1 + c * r1) \<le> 1"
    using A1 by (simp add: field_simps)
  have "1 - n * ((r2 - r1) / (1 + r1)) \<le> (1 + (r2 - r1) / (1 + r1)) powr (- n)"
    using r n by (intro bernoulli_neg) (simp_all add: field_simps)
  moreover have "1 + (r2 - r1) / (1 + r1) = (1 + r2) / (1 + r1)"
    using r by (simp add: field_simps)
  moreover have "((1 + r2) / (1 + r1)) powr (- n) = A2 / A1"
    using r by (simp add: A1_def A2_def powr_divide)
  ultimately have "1 - c * (r2 - r1) \<le> A2 / A1"
    by (simp add: c_def)
  then have b: "A1 * (1 - c * (r2 - r1)) \<le> A2"
    using A1 by (simp add: field_simps)
  have "r2 * A1 - r1 * A2 \<le> r2 * A1 - r1 * (A1 * (1 - c * (r2 - r1)))"
    using b r by (simp add: mult_left_mono)
  also have "\<dots> = (r2 - r1) * (A1 * (1 + c * r1))"
    by (simp add: algebra_simps)
  also have "\<dots> \<le> (r2 - r1) * 1"
    using a r by (intro mult_left_mono) simp_all
  finally show ?thesis
    by (simp add: A1_def A2_def algebra_simps)
qed

lemma payment_factor:
  fixes r n :: real
  assumes "0 < r" "0 < n"
  shows "r * (1 + r) powr n / ((1 + r) powr n - 1) = r / (1 - (1 + r) powr (- n))"
proof -
  have "1 < (1 + r) powr n"
    using assms by simp
  then show ?thesis
    using assms by (simp add: powr_minus field_simps)
qed

lemma discount_less_one:
  fixes r n :: real
  assumes "0 < r" "0 < n"
  shows "(1 + r) powr (- n) < 1"
  using assms by (simp add: powr_less_one)

lemma payment_factor_mono:
  fixes r1 r2 n :: real
  assumes r: "0 < r1" "r1 \<le> r2" and n: "0 < n"
  shows "r1 * (1 + r1) powr n / ((1 + r1) powr n - 1)
           \<le> r2 * (1 + r2) powr n / ((1 + r2) powr n - 1)"
proof -
  have d1: "0 < 1 - (1 + r1) powr (- n)"
    using discount_less_one [of r1 n] r n by simp
  have d2: "0 < 1 - (1 + r2) powr (- n)"
    using discount_less_one [of r2 n] r n by simp
  have "r1 / (1 - (1 + r1) powr (- n)) \<le> r2 / (1 - (1 + r2) powr (- n))"
    using discount_chord [OF r n] d1 d2 by (simp add: frac_le_eq field_simps)
  then show ?thesis
    using r n by (simp add: payment_factor)
qed

lemma payment_factor_lower:
  fixes r n :: real
  assumes "0 < r" "0 < n"
  shows "1 \<le> r * (1 + r) powr n / ((1 + r) powr n - 1) * n"
proof -
  have d: "0 < 1 - (1 + r) powr (- n)"
    using discount_less_one [OF assms] by simp
  have "1 - n * r \<le> (1 + r) powr (- n)"
    using assms by (intro bernoulli_neg) simp_all
  then have "1 - (1 + r) powr (- n) \<le> r * n"
    by (simp add: algebra_simps)
  then have "1 \<le> r * n / (1 - (1 + r) powr (- n))"
    using d by (simp add: field_simps)
  then show ?thesis
    using assms by (simp add: payment_factor)
qed

lemma monthlyPayment_factor:
  "monthlyPayment_exact L r n * n - L = L * (r * (1 + r) powr n / ((1 + r) powr n - 1) * n - 1)"
  by (simp add: monthlyPayment_exact_def algebra_simps)

lemma scaled_interest_mono:
  fixes g1 g2 n L :: real
  assumes "g1 \<le> g2" "0 < n" "0 < L"
  shows "L * (g1 * n - 1) \<le> L * (g2 * n - 1)"
proof -
  have "g1 * n \<le> g2 * n"
    using assms(1,2) by (simp add: mult_right_mono)
  then have "g1 * n - 1 \<le> g2 * n - 1"
    by simp
  then show ?thesis
    using assms(3) by (simp add: mult_left_mono)
qed

lemma loanInterest_exact_nonneg: "0 \<le> loanInterest_exact i"
proof (cases "0 < loanAmount i \<and> 0 < flooredRealRate_exact i \<and> 0 < loanTerm i")
  case False
  then show ?thesis
    by (auto simp add: loanInterest_exact_def Let_def)
next
  case True
  then have "1 \<le> flooredRealRate_exact i / 12
        * (1 + flooredRealRate_exact i / 12) powr (loanTerm i * 12)
        / ((1 + flooredRealRate_exact i / 12) powr (loanTerm i * 12) - 1) * (loanTerm i * 12)"
    by (intro payment_factor_lower) simp_all
  then show ?thesis
    using True
    by (simp add: loanInterest_exact_def Let_def monthlyPayment_factor del: powr_gt_zero)
qed

lemma loanInterest_exact_mono:
  assumes "r1 \<le> r2"
  shows "loanInterest_exact (i\<lparr>interestRate := r1\<rparr>)
           \<le> loanInterest_exact (i\<lparr>interestRate := r2\<rparr>)"
proof -
  define f1 where "f1 = flooredRealRate_exact (i\<lparr>interestRate := r1\<rparr>)"
  define f2 where "f2 = flooredRealRate_exact (i\<lparr>interestRate := r2\<rparr>)"
  define n where "n = loanTerm i * 12"
  have "(r1 - inflation i) / 100 \<le> (r2 - inflation i) / 100"
    using assms by (simp add: divide_right_mono)
  then have f: "f1 \<le> f2" "0 \<le> f1"
    by (simp_all add: f1_def f2_def flooredRealRate_exact_def max_def)
  show ?thesis
  proof (cases "0 < loanAmount i \<and> 0 < f1 \<and> 0 < loanTerm i")
    case False
    then have "loanInterest_exact (i\<lparr>interestRate := r1\<rparr>) = 0"
      by (auto simp add: loanInterest_exact_def Let_def f1_def)
    then show ?thesis
      using loanInterest_exact_nonneg [of "i\<lparr>interestRate := r2\<rparr>"] by simp
  next
    case True
    then have pos: "0 < f1 / 12" "f1 / 12 \<le> f2 / 12" "0 < n" "0 < f2"
      using f by (simp_all add: n_def)
    have "f1 / 12 * (1 + f1 / 12) powr n / ((1 + f1 / 12) powr n - 1)
       \<le> f2 / 12 * (1 + f2 / 12) powr n / ((1 + f2 / 12) powr n - 1)"
      using pos(1,2,3) by (rule payment_factor_mono)
    then have
      "loanAmount i * (f1 / 12 * (1 + f1 / 12) powr n / ((1 + f1 / 12) powr n - 1) * n - 1)
       \<le> loanAmount i * (f2 / 12 * (1 + f2 / 12) powr n / ((1 + f2 / 12) powr n - 1) * n - 1)"
      using True pos(3) by (intro scaled_interest_mono) simp_all
    then show ?thesis
      using True pos
      by (simp add: loanInterest_exact_def Let_def monthlyPayment_factor
          f1_def [symmetric] f2_def [symmetric] n_def [symmetric] del: powr_gt_zero)
  qed
qed

section \<open>The salary advantage\<close>

lemma salaryEdge_loop_foldl:
  "salaryEdge_loop i year acc =
     foldl (\<lambda>acc y. acc + (postSalary_spec i y - preSalary_spec i y)) acc [year ..< 11]"
proof (induction i year acc rule: salaryEdge_loop.induct)
  case (1 i year acc)
  show ?case
  proof (cases "year \<le> 10")
    case True
    then have "[year ..< 11] = year # [year + 1 ..< 11]"
      by (simp add: upt_conv_Cons)
    with True "1.IH" show ?thesis
      by (subst salaryEdge_loop.simps) (simp add: postSalary_spec_def preSalary_spec_def Let_def)
  next
    case False
    then show ?thesis
      by (subst salaryEdge_loop.simps) simp
  qed
qed

text \<open>
  The terms of the sum as real numbers. The exponent of the post-degree salary is the
  natural number \<open>y - 1\<close>; the power of the pre-degree salary has a real exponent, and is a
  real power when its base \<open>1 + realPreGrowth\<close> is positive.
\<close>

lemma postSalary_Fin:
  assumes "1 \<le> y"
  shows "postSalary_spec i y =
     Fin (postMbaSalary i * (1 + (postMbaWageGrowth i - inflation i) / 100) ^ (y - 1))"
proof -
  have e: "Fin (real y) - Fin 1 = Fin (real (y - 1))"
    using assms by (simp add: of_nat_diff)
  show ?thesis
    unfolding postSalary_spec_def realPostGrowth_Fin e plus_jsnum.simps js_pow_nat
    by simp
qed

lemma preSalary_Fin:
  assumes "inflation i - preMbaWageGrowth i < 100"
  shows "preSalary_spec i y =
     Fin (preMbaSalary i * (1 + (preMbaWageGrowth i - inflation i) / 100)
        powr (real y - 1 + programLength i / 12))"
proof -
  have "0 < 1 + (preMbaWageGrowth i - inflation i) / 100"
    using assms by (simp add: field_simps)
  then show ?thesis
    by (simp add: preSalary_spec_def realPreGrowth_Fin)
qed

lemma foldl_Fin:
  "foldl (\<lambda>acc y. acc + Fin (f y)) (Fin a) ys = Fin (a + (\<Sum>y\<leftarrow>ys. f y))"
  by (induction ys arbitrary: a) (simp_all add: add.assoc)

lemma foldl_cong_set:
  "(\<And>y. y \<in> set ys \<Longrightarrow> f y = g y) \<Longrightarrow>
   foldl (\<lambda>acc y. acc + f y) a ys = foldl (\<lambda>acc y. acc + g y) (a::jsnum) ys"
  by (induction ys arbitrary: a) simp_all

lemma salaryAdvantage_real:
  assumes "inflation i - preMbaWageGrowth i < 100"
  shows "salaryAdvantage_spec i =
     Fin (\<Sum>y = 1..10.
        postMbaSalary i * (1 + (postMbaWageGrowth i - inflation i) / 100) ^ (y - 1)
        - preMbaSalary i * (1 + (preMbaWageGrowth i - inflation i) / 100)
            powr (real y - 1 + programLength i / 12))"
proof -
  let ?f = "\<lambda>y. postMbaSalary i * (1 + (postMbaWageGrowth i - inflation i) / 100) ^ (y - 1)
        - preMbaSalary i * (1 + (preMbaWageGrowth i - inflation i) / 100)
            powr (real y - 1 + programLength i / 12)"
  have "salaryAdvantage_spec i = foldl (\<lambda>acc y. acc + Fin (?f y)) (Fin 0) [1 ..< 11]"
    unfolding salaryAdvantage_spec_def
    by (rule foldl_cong_set) (simp add: postSalary_Fin preSalary_Fin [OF assms])
  also have "\<dots> = Fin (\<Sum>y\<leftarrow>[1 ..< 11]. ?f y)"
    by (simp only: foldl_Fin add_0)
  also have "(\<Sum>y\<leftarrow>[1 ..< 11]. ?f y) = (\<Sum>y = 1..10. ?f y)"
  proof -
    have "{1..10::nat} = set [1 ..< 11]"
      by auto
    then show ?thesis
      by (simp only: sum_list_distinct_conv_sum_set distinct_upt)
  qed
  finally show ?thesis .
qed

text \<open>
  C8. The salary advantage that the loop of lines 118 to 123 computes is the sum, for
  \<open>y\<close> from 1 to 10, of \<open>postSalary0 \<times> (1+realPostGrowth)^(y-1) -
  preSalary0 \<times> (1+realPreGrowth)^(y-1+monthsAway/12)\<close>: as a sum in the program's
  arithmetic for every input, and as a sum of real numbers when the base
  \<open>1 + realPreGrowth\<close> of the fractional power is positive.
\<close>

theorem salaryEdge_sum:
  "salaryEdge (calculateROI i) = salaryAdvantage_spec i \<and>
   (inflation i - preMbaWageGrowth i < 100 \<longrightarrow>
    salaryEdge (calculateROI i) =
     Fin (\<Sum>y = 1..10.
        postMbaSalary i * (1 + (postMbaWageGrowth i - inflation i) / 100) ^ (y - 1)
        - preMbaSalary i * (1 + (preMbaWageGrowth i - inflation i) / 100)
            powr (real y - 1 + programLength i / 12)))"
  using salaryAdvantage_real [of i]
  by (simp add: calculateROI_def Let_def salaryAdvantage_spec_def salaryEdge_loop_foldl)

text \<open>
  C8 at the record \<open>flatWages\<close>, whose real growth rates are 0: the ten terms are
  \<open>140000 - 80000\<close> each.
\<close>

theorem salaryEdge_sum_witness:
  "inflation flatWages - preMbaWageGrowth flatWages < 100 \<and>
   salaryEdge (calculateROI flatWages) = Fin 600000"
proof -
  have h: "inflation flatWages - preMbaWageGrowth flatWages < 100"
    by (simp add: flatWages_def DEFAULTS_def)
  with salaryEdge_sum [of flatWages] have "salaryEdge (calculateROI flatWages) =
     Fin (\<Sum>y = 1..10.
        postMbaSalary flatWages
          * (1 + (postMbaWageGrowth flatWages - inflation flatWages) / 100) ^ (y - 1)
        - preMbaSalary flatWages
          * (1 + (preMbaWageGrowth flatWages - inflation flatWages) / 100)
              powr (real y - 1 + programLength flatWages / 12))"
    by blast
  also have "\<dots> = Fin 600000"
    by (simp add: flatWages_def DEFAULTS_def)
  finally show ?thesis
    using h by simp
qed

section \<open>The annualised return\<close>

lemma annualizedROI_eq:
  "annualizedROI (calculateROI i) =
     (if Fin 0 < totalReturn (calculateROI i) / totalCost (calculateROI i)
      then (js_pow (totalReturn (calculateROI i) / totalCost (calculateROI i)) (Fin (1 / 10))
              - Fin 1) * Fin 100
      else Fin 0)"
  by (simp add: calculateROI_def Let_def)

lemma annualizedROI_Fin:
  assumes "totalCost (calculateROI i) = Fin c" and "totalReturn (calculateROI i) = Fin t"
    and "c \<noteq> 0"
  shows "annualizedROI (calculateROI i) =
     (if 0 < t / c then Fin (((t / c) powr (1 / 10) - 1) * 100) else Fin 0)"
  using assms by (simp add: annualizedROI_eq)

text \<open>
  C1, as the code has it. When the computed total cost is exactly 0, the annualised return
  is 0 if the total projected return is not positive (0, negative or NaN), and it is
  \<open>+\<infinity>\<close> if the total projected return is positive: the ratio is then \<open>+\<infinity>\<close>, which
  passes the guard \<^verbatim>\<open>grossRatio > 0\<close>.
\<close>

theorem annualizedROI_zero_cost:
  "totalCost (calculateROI i) = Fin 0 \<Longrightarrow>
   annualizedROI (calculateROI i) =
     (if Fin 0 < totalReturn (calculateROI i) then PInf else Fin 0)"
  by (cases "totalReturn (calculateROI i)") (simp_all add: annualizedROI_eq)

text \<open>
  The amended C1 at the record with no cost and no return: the annualised return is 0.
\<close>

theorem annualizedROI_zero_cost_witness:
  "totalCost (calculateROI zeroCostZeroReturn) = Fin 0 \<and>
   annualizedROI (calculateROI zeroCostZeroReturn) = Fin 0"
proof -
  have c: "totalCost (calculateROI zeroCostZeroReturn) = Fin 0"
    by (simp add: calculateROI_def Let_def forgoneIncome_of_def loanInterest_of_def
        zeroCostZeroReturn_def zeroCost_def)
  have r: "totalReturn (calculateROI zeroCostZeroReturn) = Fin 0"
    by (simp add: calculateROI_def Let_def zeroCostZeroReturn_def zeroCost_def
        salaryEdge_loop.simps realPreGrowth_def realPostGrowth_def realInvestReturn_def)
  show ?thesis
    using annualizedROI_zero_cost [OF c] c r by simp
qed

text \<open>
  C1 as stated fails: the record \<open>zeroCost\<close> has non-negative fields and a total cost of
  exactly 0, its total return is 10, and its annualised return is \<open>+\<infinity>\<close>, not 0.
\<close>

theorem annualizedROI_zero_cost_counterexample:
  "nonneg_inputs zeroCost \<and> totalCost (calculateROI zeroCost) = Fin 0 \<and>
   totalReturn (calculateROI zeroCost) = Fin 10 \<and>
   annualizedROI (calculateROI zeroCost) = PInf \<and>
   annualizedROI (calculateROI zeroCost) \<noteq> Fin 0"
  by (simp add: calculateROI_def Let_def nonneg_inputs_def zeroCost_def salaryEdge_loop.simps
      realPreGrowth_def realPostGrowth_def realInvestReturn_def
      forgoneIncome_of_def loanInterest_of_def)

subsection \<open>A return at most the cost\<close>

lemma totalReturn_salary_only:
  "totalReturn (calculateROI (zeroCost \<lparr> postMbaSalary := s, tuitionAndExpenses := u \<rparr>))
     = Fin (10 * s)"
  by (simp add: calculateROI_def Let_def zeroCost_def salaryEdge_loop.simps
      realPreGrowth_def realPostGrowth_def realInvestReturn_def)

lemma totalCost_tuition_only:
  "totalCost (calculateROI (zeroCost \<lparr> postMbaSalary := s, tuitionAndExpenses := u \<rparr>))
     = Fin u"
  by (simp add: calculateROI_def Let_def forgoneIncome_of_def loanInterest_of_def zeroCost_def)

lemma tenth_root_of_half: "(1 / 2 :: real) powr (1 / 10) < 1"
proof -
  have "(1 / 2 :: real) powr (1 / 10) < 1 powr (1 / 10)"
    by (intro powr_less_mono2) simp_all
  then show ?thesis by simp
qed

text \<open>
  C2, as the code has it. With a positive total cost, the annualised return is exactly 0
  when the total projected return is at most 0 (the ratio is then not positive and the
  guard of line 133 fails) and when it equals the total cost (the ratio is then 1, whose
  tenth root is 1). Nothing is said of a return strictly between 0 and the cost: there the
  code evaluates \<open>((return/cost)^(1/10) - 1) \<times> 100\<close>.
\<close>

theorem annualizedROI_return_at_most_cost:
  assumes "totalCost (calculateROI i) = Fin c" and "totalReturn (calculateROI i) = Fin t"
    and "0 < c" and "t \<le> 0 \<or> t = c"
  shows "annualizedROI (calculateROI i) = Fin 0"
proof -
  have "annualizedROI (calculateROI i) =
     (if 0 < t / c then Fin (((t / c) powr (1 / 10) - 1) * 100) else Fin 0)"
    using assms by (intro annualizedROI_Fin) simp_all
  then show ?thesis
    using assms(3,4) by (auto simp add: zero_less_divide_iff)
qed

text \<open>
  The amended C2 at two records of cost 100: a return of 100 and a return of 0 both give
  an annualised return of 0.
\<close>

theorem annualizedROI_return_at_most_cost_witness:
  "totalCost (calculateROI evenReturn) = Fin 100 \<and>
   totalReturn (calculateROI evenReturn) = Fin 100 \<and>
   annualizedROI (calculateROI evenReturn) = Fin 0 \<and>
   totalCost (calculateROI noReturn) = Fin 100 \<and>
   totalReturn (calculateROI noReturn) = Fin 0 \<and>
   annualizedROI (calculateROI noReturn) = Fin 0"
proof -
  have e: "totalCost (calculateROI evenReturn) = Fin 100"
    "totalReturn (calculateROI evenReturn) = Fin 100"
    unfolding evenReturn_def by (simp_all add: totalReturn_salary_only totalCost_tuition_only)
  have z: "totalCost (calculateROI noReturn) = Fin 100"
    "totalReturn (calculateROI noReturn) = Fin 0"
    unfolding noReturn_def by (simp_all add: totalReturn_salary_only totalCost_tuition_only)
  have "annualizedROI (calculateROI evenReturn) = Fin 0"
    by (rule annualizedROI_return_at_most_cost [OF e]) simp_all
  moreover have "annualizedROI (calculateROI noReturn) = Fin 0"
    by (rule annualizedROI_return_at_most_cost [OF z]) simp_all
  ultimately show ?thesis
    using e z by simp
qed

text \<open>
  C2 as stated fails: the record \<open>halfReturn\<close> has a total cost of 100 and a total
  projected return of 50, which is below the cost, and its annualised return is not 0.
\<close>

theorem annualizedROI_return_at_most_cost_counterexample:
  "totalCost (calculateROI halfReturn) = Fin 100 \<and>
   totalReturn (calculateROI halfReturn) = Fin 50 \<and>
   annualizedROI (calculateROI halfReturn) \<noteq> Fin 0"
proof -
  have h: "totalCost (calculateROI halfReturn) = Fin 100"
    "totalReturn (calculateROI halfReturn) = Fin 50"
    unfolding halfReturn_def by (simp_all add: totalReturn_salary_only totalCost_tuition_only)
  have "annualizedROI (calculateROI halfReturn) = Fin (((1 / 2) powr (1 / 10) - 1) * 100)"
    by (simp add: annualizedROI_Fin [OF h])
  then have "annualizedROI (calculateROI halfReturn) \<noteq> Fin 0"
    using tenth_root_of_half by simp
  with h show ?thesis by simp
qed

section \<open>Finite results\<close>




section \<open>The unused input\<close>

text \<open>
  C10. The result does not depend on the field \<^verbatim>\<open>investmentReturn\<close>: two records that
  differ in that field only have the same result, and the bonus is compounded at the
  constant 5.5 percent less inflation.
\<close>

theorem investmentReturn_unused:
  "calculateROI (i\<lparr>investmentReturn := a\<rparr>) = calculateROI (i\<lparr>investmentReturn := b\<rparr>) \<and>
   bonusCompounded (calculateROI i) =
     Fin (signingBonus i)
       * js_pow (Fin 1 + (Fin (55 / 10) - Fin (inflation i)) / Fin 100) (Fin 10)"
  by (simp add: calculateROI_def Let_def realInvestReturn_def forgoneIncome_of_def
      loanInterest_of_def realRate_def salaryEdge_loop_foldl postSalary_spec_def
      preSalary_spec_def realPreGrowth_def realPostGrowth_def)

section \<open>The pointer mapping\<close>

text \<open>
  C9. With no track element (\<^verbatim>\<open>trackRef.current\<close> null) the mapping returns the current
  value, whatever the pointer position.
\<close>

theorem getValueFromEvent_no_track: "getValueFromEvent p None clientX = Fin (valueP p)"
  by (simp add: getValueFromEvent_def)

subsection \<open>A laid-out track\<close>

lemma clamp_ratio: "js_max (Fin 0) (js_min (Fin 1) (Fin q)) = Fin (max 0 (min 1 q))"
  by (simp add: max_def min_def)

lemma getValueFromEvent_Fin:
  assumes "rect_width rect \<noteq> 0" "stepP p \<noteq> 0"
  shows "getValueFromEvent p (Some rect) x =
    Fin (of_int \<lfloor>(minP p + max 0 (min 1 ((x - rect_left rect) / rect_width rect))
                        * (maxP p - minP p)) / stepP p + 1 / 2\<rfloor> * stepP p)"
  using assms by (simp add: getValueFromEvent_def Let_def clamp_ratio)

lemma round_half_up_grid:
  fixes m s :: int
  assumes "0 < s" "2 * (m mod s) < s"
  shows "\<lfloor>(of_int m :: real) / of_int s + 1 / 2\<rfloor> = m div s"
proof (rule floor_unique)
  have "m = m div s * s + m mod s"
    by simp
  then have ms: "(of_int m :: real) = of_int (m div s) * of_int s + of_int (m mod s)"
    by (metis of_int_add of_int_mult)
  have s: "(0 :: real) < of_int s"
    using assms(1) by simp
  have r: "(0 :: real) \<le> of_int (m mod s)" "2 * (of_int (m mod s) :: real) < of_int s"
    using assms by (simp, metis of_int_less_iff of_int_mult of_int_numeral)
  have q: "(of_int m :: real) / of_int s = of_int (m div s) + of_int (m mod s) / of_int s"
    using s by (simp add: ms field_simps)
  have f: "0 \<le> (of_int (m mod s) :: real) / of_int s"
    "(of_int (m mod s) :: real) / of_int s < 1 / 2"
    using s r by (simp_all add: pos_divide_less_eq)
  show "of_int (m div s) \<le> (of_int m :: real) / of_int s + 1 / 2"
    unfolding q using f by linarith
  show "(of_int m :: real) / of_int s + 1 / 2 < of_int (m div s) + 1"
    unfolding q using f by linarith
qed

text \<open>
  C3, as the code has it. The code rounds \<open>raw / step\<close> and multiplies by \<open>step\<close>, so the
  result is a multiple of \<open>step\<close> counted from 0, and the multiple nearest to \<open>max\<close> must
  not lie above \<open>max\<close>. Let \<open>step\<close>, \<open>min\<close> and \<open>max\<close> be whole numbers of magnitude at
  most \<open>2^51\<close>, with \<open>step\<close> positive, \<open>min\<close> a multiple of \<open>step\<close>, \<open>min < max\<close>, and
  \<open>max\<close> less than half a step above a multiple of \<open>step\<close>; let the track have a width
  other than 0. Then for every pointer position the result is \<open>min + k \<times> step\<close> for an
  integer \<open>k \<ge> 0\<close> and lies between \<open>min\<close> and \<open>max\<close>. The bound \<open>2^51\<close> plays no part in
  the exact arithmetic of the proof; it keeps the statement true of binary64, where such
  whole numbers and their products \<open>k \<times> step\<close> are exact and rounding is monotone, while a
  step like 0.1 is not: \<open>3 \<times> 0.1\<close> is \<open>0.30000000000000004\<close>.
\<close>

theorem getValueFromEvent_on_grid:
  assumes step: "stepP p = of_int s" "0 < s"
    and mn: "minP p = of_int (a * s)"
    and mx: "maxP p = of_int m"
    and lt: "a * s < m"
    and rem: "2 * (m mod s) < s"
    and bound: "\<bar>a * s\<bar> \<le> 2 ^ 51" "\<bar>m\<bar> \<le> 2 ^ 51" "s \<le> 2 ^ 51"
    and w: "rect_width rect \<noteq> 0"
  shows "\<exists>k::int. 0 \<le> k \<and>
     getValueFromEvent p (Some rect) clientX = Fin (minP p + of_int k * stepP p) \<and>
     minP p \<le> minP p + of_int k * stepP p \<and> minP p + of_int k * stepP p \<le> maxP p"
proof -
  define \<rho> where "\<rho> = max 0 (min 1 ((clientX - rect_left rect) / rect_width rect))"
  define z where "z = (minP p + \<rho> * (maxP p - minP p)) / stepP p"
  have \<rho>: "0 \<le> \<rho>" "\<rho> \<le> 1"
    by (simp_all add: \<rho>_def)
  have sp: "0 < stepP p"
    using step by simp
  have d: "0 < maxP p - minP p"
    using lt by (simp add: mn mx del: of_int_mult)
  have "0 \<le> \<rho> * (maxP p - minP p)"
    using \<rho> d by simp
  moreover have "\<rho> * (maxP p - minP p) \<le> 1 * (maxP p - minP p)"
    using \<rho> d by (intro mult_right_mono) simp_all
  ultimately have raw: "minP p \<le> minP p + \<rho> * (maxP p - minP p)"
    "minP p + \<rho> * (maxP p - minP p) \<le> maxP p"
    by simp_all
  have "minP p / stepP p = of_int a"
    using step by (simp add: mn)
  moreover have "minP p / stepP p \<le> z"
    unfolding z_def using raw(1) sp by (intro divide_right_mono) simp_all
  ultimately have zlo: "of_int a \<le> z"
    by simp
  have "z \<le> maxP p / stepP p"
    unfolding z_def using raw(2) sp by (intro divide_right_mono) simp_all
  then have zhi: "z \<le> of_int m / of_int s"
    by (simp add: step mx)
  have fl_lo: "a \<le> \<lfloor>z + 1 / 2\<rfloor>"
    using zlo by (simp add: le_floor_iff)
  have "\<lfloor>z + 1 / 2\<rfloor> \<le> \<lfloor>(of_int m :: real) / of_int s + 1 / 2\<rfloor>"
    using zhi by (intro floor_mono) simp
  then have fl_hi: "\<lfloor>z + 1 / 2\<rfloor> \<le> m div s"
    by (simp add: round_half_up_grid [OF step(2) rem])
  define k where "k = \<lfloor>z + 1 / 2\<rfloor> - a"
  have k: "0 \<le> k"
    using fl_lo by (simp add: k_def)
  have val: "getValueFromEvent p (Some rect) clientX = Fin (of_int \<lfloor>z + 1 / 2\<rfloor> * stepP p)"
    using w sp by (simp add: getValueFromEvent_Fin z_def \<rho>_def)
  have e: "of_int \<lfloor>z + 1 / 2\<rfloor> * stepP p = minP p + of_int k * stepP p"
    by (simp add: k_def mn step algebra_simps)
  have "m div s * s \<le> m"
    using step(2) by (simp add: minus_mod_eq_div_mult [symmetric])
  moreover have "\<lfloor>z + 1 / 2\<rfloor> * s \<le> m div s * s"
    using fl_hi step(2) by (simp add: mult_right_mono)
  ultimately have "\<lfloor>z + 1 / 2\<rfloor> * s \<le> m"
    by simp
  then have "(of_int (\<lfloor>z + 1 / 2\<rfloor> * s) :: real) \<le> of_int m"
    by (simp only: of_int_le_iff)
  then have "of_int \<lfloor>z + 1 / 2\<rfloor> * stepP p \<le> maxP p"
    by (simp add: step mx)
  then have hi: "minP p + of_int k * stepP p \<le> maxP p"
    by (simp only: e)
  have "0 \<le> of_int k * stepP p"
    using k sp by simp
  then show ?thesis
    using val e k hi by auto
qed

text \<open>
  The amended C3 on the signing-bonus slider (0 to 100000 in steps of 500) with the track
  from pixel 100 to 600: a pointer at pixel 100000, far right of the track, gives a value
  on the grid; the pointer at 350 gives 50000 and the pointer at 50 gives 0. On the slider
  from 0 to 10 in steps of 3 the right end of the track gives 9.
\<close>

theorem getValueFromEvent_on_grid_witness:
  "getValueFromEvent signingBonusSlider (Some track100to600) 350 = Fin 50000 \<and>
   getValueFromEvent signingBonusSlider (Some track100to600) 50 = Fin 0 \<and>
   (\<exists>k::int. 0 \<le> k \<and>
      getValueFromEvent signingBonusSlider (Some track100to600) 100000
        = Fin (0 + of_int k * 500)) \<and>
   getValueFromEvent thirdsSlider (Some track100to600) 600 = Fin 9 \<and>
   (\<exists>k::int. 0 \<le> k \<and>
      getValueFromEvent thirdsSlider (Some track100to600) 600 = Fin (0 + of_int k * 3) \<and>
      0 + of_int k * 3 \<le> (10 :: real))"
proof -
  have sb: "minP signingBonusSlider = 0" "stepP signingBonusSlider = 500"
    by (simp_all add: signingBonusSlider_def)
  have th: "minP thirdsSlider = 0" "stepP thirdsSlider = 3" "maxP thirdsSlider = 10"
    by (simp_all add: thirdsSlider_def)
  have "\<exists>k::int. 0 \<le> k \<and>
     getValueFromEvent signingBonusSlider (Some track100to600) 100000 =
       Fin (minP signingBonusSlider + of_int k * stepP signingBonusSlider) \<and>
     minP signingBonusSlider \<le> minP signingBonusSlider + of_int k * stepP signingBonusSlider \<and>
     minP signingBonusSlider + of_int k * stepP signingBonusSlider \<le> maxP signingBonusSlider"
    by (rule getValueFromEvent_on_grid [where a = 0 and s = 500 and m = 100000])
      (simp_all add: signingBonusSlider_def track100to600_def)
  then have a: "\<exists>k::int. 0 \<le> k \<and>
      getValueFromEvent signingBonusSlider (Some track100to600) 100000
        = Fin (0 + of_int k * 500)"
    unfolding sb by blast
  have "\<exists>k::int. 0 \<le> k \<and>
     getValueFromEvent thirdsSlider (Some track100to600) 600 =
       Fin (minP thirdsSlider + of_int k * stepP thirdsSlider) \<and>
     minP thirdsSlider \<le> minP thirdsSlider + of_int k * stepP thirdsSlider \<and>
     minP thirdsSlider + of_int k * stepP thirdsSlider \<le> maxP thirdsSlider"
    by (rule getValueFromEvent_on_grid [where a = 0 and s = 3 and m = 10])
      (simp_all add: thirdsSlider_def track100to600_def)
  then have b: "\<exists>k::int. 0 \<le> k \<and>
      getValueFromEvent thirdsSlider (Some track100to600) 600 = Fin (0 + of_int k * 3) \<and>
      0 + of_int k * 3 \<le> (10 :: real)"
    unfolding th by blast
  have c: "getValueFromEvent thirdsSlider (Some track100to600) 600 = Fin 9"
    "getValueFromEvent signingBonusSlider (Some track100to600) 350 = Fin 50000"
    "getValueFromEvent signingBonusSlider (Some track100to600) 50 = Fin 0"
    by (simp_all add: thirdsSlider_def signingBonusSlider_def track100to600_def
        getValueFromEvent_def Let_def)
  show ?thesis
    using a b c by blast
qed

text \<open>
  C3 as stated fails. The slider \<open>offGridSlider\<close> has \<open>min = 1 < max = 10\<close> and
  \<open>step = 4\<close>: at the left end of the track the result is 0, below \<open>min\<close>, and at the
  right end it is 12, above \<open>max\<close>. On a track of width 0 a pointer at its left edge gives
  NaN.
\<close>

theorem getValueFromEvent_on_grid_counterexample:
  "getValueFromEvent offGridSlider (Some track100to600) 100 = Fin 0 \<and>
   \<not> Fin (minP offGridSlider) \<le> getValueFromEvent offGridSlider (Some track100to600) 100 \<and>
   getValueFromEvent offGridSlider (Some track100to600) 600 = Fin 12 \<and>
   \<not> getValueFromEvent offGridSlider (Some track100to600) 600 \<le> Fin (maxP offGridSlider) \<and>
   getValueFromEvent signingBonusSlider (Some flatTrack) 0 = NaN"
  by (simp add: getValueFromEvent_def Let_def offGridSlider_def signingBonusSlider_def
      track100to600_def flatTrack_def)

section \<open>The dragging state machine\<close>

lemma run_append: "run p t st (es @ es') = run p t (run p t st es) es'"
proof (induction es arbitrary: st)
  case Nil
  then show ?case by (cases st) simp
next
  case (Cons e es)
  then show ?case by (cases st) (simp split: prod.splits)
qed

lemma idle_unchanged: "\<not> isDragging s \<Longrightarrow> s\<lparr>isDragging := False\<rparr> = (s::SliderState)"
  by (cases s) simp

lemma run_idle_no_begin:
  "\<forall>e\<in>set es. \<not> is_begin e \<Longrightarrow> \<not> isDragging s \<Longrightarrow> run p t (s, out) es = (s, out)"
proof (induction es)
  case Nil
  then show ?case by simp
next
  case (Cons e es)
  then show ?case
    by (cases e) (simp_all add: handlePointerMove_def handlePointerUp_def idle_unchanged)
qed

lemma run_snoc:
  "run p t st (es @ [e]) =
     (case run p t st es of (s, out) \<Rightarrow>
        (fst (dispatch p t s e), out @ snd (dispatch p t s e)))"
  by (simp add: run_append split: prod.splits)

lemma idle_after_end: "is_end e \<Longrightarrow> \<not> isDragging (fst (run p t st (es @ [e])))"
  by (cases e) (simp_all add: run_snoc handlePointerUp_def split: prod.splits)

lemma dragging_after_begin: "is_begin e \<Longrightarrow> isDragging (fst (run p t st (es @ [e])))"
  by (cases e) (simp_all add: run_snoc handlePointerDown_def split: prod.splits)

text \<open>
  C6, as the code has it. In any state \<open>s\<close>, \<^verbatim>\<open>handlePointerMove\<close> leaves the state as
  it is; it calls \<^verbatim>\<open>onChange\<close> not at all when \<open>isDragging\<close> is false, and exactly once,
  with the value recomputed from the pointer position, when \<open>isDragging\<close> is true: on
  every move, whether or not that value differs from the current one. On the runs from the
  initial state: a move after events none of which is a pointer-down leaves the list of
  emitted values empty; a move right after a pointer-up or pointer-cancel adds nothing to
  it; a move right after a pointer-down adds the recomputed value.
\<close>

theorem handlePointerMove_gated:
  "(\<not> isDragging s \<longrightarrow> handlePointerMove p t s x = (s, [])) \<and>
   (isDragging s \<longrightarrow> handlePointerMove p t s x = (s, [getValueFromEvent p t x])) \<and>
   ((\<forall>e\<in>set es. \<not> is_begin e) \<longrightarrow>
      snd (run p t (initialState, []) (es @ [PointerMove x])) = []) \<and>
   (is_end e \<longrightarrow>
      snd (run p t (initialState, []) (es @ [e, PointerMove x])) =
      snd (run p t (initialState, []) (es @ [e]))) \<and>
   (is_begin e \<longrightarrow>
      snd (run p t (initialState, []) (es @ [e, PointerMove x])) =
      snd (run p t (initialState, []) (es @ [e])) @ [getValueFromEvent p t x])"
proof -
  have a: "snd (run p t (initialState, []) (es @ [PointerMove x])) = []"
    if "\<forall>e\<in>set es. \<not> is_begin e"
  proof -
    from that have "\<forall>e\<in>set (es @ [PointerMove x]). \<not> is_begin e"
      by simp
    then show ?thesis
      by (subst run_idle_no_begin) (simp_all add: initialState_def)
  qed
  obtain s' out where r: "run p t (initialState, []) (es @ [e]) = (s', out)"
    by (cases "run p t (initialState, []) (es @ [e])")
  have move: "run p t (initialState, []) (es @ [e, PointerMove x]) =
      (fst (handlePointerMove p t s' x), out @ snd (handlePointerMove p t s' x))"
    using run_snoc [of p t "(initialState, [])" "es @ [e]" "PointerMove x"] by (simp add: r)
  have b: "snd (run p t (initialState, []) (es @ [e, PointerMove x])) =
      snd (run p t (initialState, []) (es @ [e]))" if "is_end e"
    using idle_after_end [OF that, of p t "(initialState, [])" es]
    by (simp add: move r handlePointerMove_def)
  have c: "snd (run p t (initialState, []) (es @ [e, PointerMove x])) =
      snd (run p t (initialState, []) (es @ [e])) @ [getValueFromEvent p t x]" if "is_begin e"
    using dragging_after_begin [OF that, of p t "(initialState, [])" es]
    by (simp add: move r handlePointerMove_def)
  show ?thesis
    using a b c by (simp add: handlePointerMove_def)
qed

text \<open>
  C6 on the signing-bonus slider: a move in the initial state emits nothing, and in the
  run move, down at 350, move to 600, up, move to 50 the emitted values are those of the
  pointer-down and of the move made while dragging.
\<close>

theorem handlePointerMove_gated_witness:
  "handlePointerMove signingBonusSlider (Some track100to600) initialState 350
     = (initialState, []) \<and>
   snd (run signingBonusSlider (Some track100to600) (initialState, [])
          [PointerMove 350, PointerDown 350, PointerMove 600, PointerUp, PointerMove 50])
     = [Fin 50000, Fin 100000]"
proof -
  have "snd (run signingBonusSlider (Some track100to600) (initialState, [])
          ([PointerMove 350, PointerDown 350, PointerMove 600] @ [PointerUp, PointerMove 50]))
     = snd (run signingBonusSlider (Some track100to600) (initialState, [])
          ([PointerMove 350, PointerDown 350, PointerMove 600] @ [PointerUp]))"
    using handlePointerMove_gated [of initialState signingBonusSlider "Some track100to600" 50
        "[PointerMove 350, PointerDown 350, PointerMove 600]" PointerUp]
    by simp
  moreover have
    "handlePointerMove signingBonusSlider (Some track100to600) initialState 350
       = (initialState, [])"
    using handlePointerMove_gated [of initialState signingBonusSlider "Some track100to600" 350
        "[]" PointerUp]
    by (simp add: initialState_def)
  ultimately show ?thesis
    by (simp add: handlePointerMove_def handlePointerDown_def handlePointerUp_def
        initialState_def getValueFromEvent_def Let_def signingBonusSlider_def
        track100to600_def)
qed

text \<open>
  C6 as stated fails in its second half. The slider \<open>midSlider\<close> has the current value
  50000, and a pointer at pixel 350 maps to that same value; in the run down at 350, move
  to 350, move to 350 the two moves are made while dragging and emit the unchanged value
  again.
\<close>

theorem handlePointerMove_gated_counterexample:
  "getValueFromEvent midSlider (Some track100to600) 350 = Fin (valueP midSlider) \<and>
   snd (run midSlider (Some track100to600) (initialState, [])
          [PointerDown 350, PointerMove 350, PointerMove 350])
     = [Fin 50000, Fin 50000, Fin 50000]"
  by (simp add: handlePointerMove_def handlePointerDown_def
      initialState_def getValueFromEvent_def Let_def midSlider_def signingBonusSlider_def
      track100to600_def)

end
